theory Spec2Isabelle
  imports Main
begin

section \<open>Python strings\<close>

text \<open>
  A Python \<open>str\<close> is a sequence of Unicode code points. A code point is a natural
  number and a string is a list of them, so that \<open>length\<close> counts what \<open>len\<close> counts.
  \<open>S ''abc''\<close> writes the ASCII literal \<open>"abc"\<close>.
\<close>

type_synonym pstr = "nat list"

abbreviation S :: "string \<Rightarrow> pstr" where
  "S \<equiv> map of_char"

text \<open>
  The character classes and case mapping of the interpreter are written out on the ASCII
  range (code points below 128), where they are small tables:
  \<open>str.isspace\<close> and the pattern \<open>\s\<close> hold of TAB, LF, VT, FF, CR, the separators
  FS, GS, RS, US and the space; \<open>\w\<close> holds of digits, letters and the underscore;
  \<open>str.lower\<close> maps \<open>A..Z\<close> to \<open>a..z\<close>.
  Beyond ASCII they come from the interpreter's Unicode database, which is not part of
  the repository: it is the parameter \<open>L\<close>, as are the \<open>idna\<close> codec of
  \<open>str.encode\<close> (\<open>None\<close> when the codec raises \<open>UnicodeError\<close>) and
  \<open>int\<close> on a string with characters beyond ASCII (\<open>None\<close> when it raises
  \<open>ValueError\<close>).
\<close>

record pylib =
  u_word :: "nat \<Rightarrow> bool"
  u_space :: "nat \<Rightarrow> bool"
  u_lower :: "pstr \<Rightarrow> pstr"
  idna :: "pstr \<Rightarrow> pstr option"
  u_int :: "pstr \<Rightarrow> int option"

definition ascii_space :: "nat \<Rightarrow> bool" where
  "ascii_space c = ((9 \<le> c \<and> c \<le> 13) \<or> (28 \<le> c \<and> c \<le> 32))"

definition ascii_word :: "nat \<Rightarrow> bool" where
  "ascii_word c =
     ((48 \<le> c \<and> c \<le> 57) \<or> (65 \<le> c \<and> c \<le> 90) \<or> c = 95 \<or> (97 \<le> c \<and> c \<le> 122))"

definition ascii_lower :: "nat \<Rightarrow> nat" where
  "ascii_lower c = (if 65 \<le> c \<and> c \<le> 90 then c + 32 else c)"

definition is_space :: "pylib \<Rightarrow> nat \<Rightarrow> bool" where
  "is_space L c = (if c < 128 then ascii_space c else u_space L c)"

definition is_word :: "pylib \<Rightarrow> nat \<Rightarrow> bool" where
  "is_word L c = (if c < 128 then ascii_word c else u_word L c)"

definition lower :: "pylib \<Rightarrow> pstr \<Rightarrow> pstr" where
  "lower L s = (if \<forall>c \<in> set s. c < 128 then map ascii_lower s else u_lower L s)"

definition strip :: "pylib \<Rightarrow> pstr \<Rightarrow> pstr" where
  "strip L s = rev (dropWhile (is_space L) (rev (dropWhile (is_space L) s)))"

definition replace_char :: "nat \<Rightarrow> nat \<Rightarrow> pstr \<Rightarrow> pstr" where
  "replace_char old new s = map (\<lambda>c. if c = old then new else c) s"

text \<open>
  A library instance for evaluating ASCII inputs: it knows no character beyond ASCII,
  and its codec is the ASCII path of the interpreter's \<open>idna\<close> codec (the empty string
  encodes to itself, a label of 1 to 63 characters to itself, a longer one raises).
  The functions above consult it only on code points from 128 on.
\<close>

definition ascii_lib :: pylib where
  "ascii_lib = \<lparr> u_word = (\<lambda>c. False), u_space = (\<lambda>c. False), u_lower = (\<lambda>s. s),
     idna = (\<lambda>q. if (\<forall>c \<in> set q. c < 128) \<and> length q < 64 then Some q else None),
     u_int = (\<lambda>s. None) \<rparr>"

section \<open>Query builder (\<open>Music.build_search_query\<close>)\<close>

definition BASE_URL :: pstr where
  "BASE_URL = S ''vuxo7.com''"

text \<open>\<open>re.sub(r"[^\w\s]", "", keyword)\<close>: every character outside both classes is dropped.\<close>

definition cleaned :: "pylib \<Rightarrow> pstr \<Rightarrow> pstr" where
  "cleaned L keyword = filter (\<lambda>c. is_word L c \<or> is_space L c) keyword"

text \<open>\<open>query = cleaned.strip().lower().replace(" ", "-")\<close>.\<close>

definition query :: "pylib \<Rightarrow> pstr \<Rightarrow> pstr" where
  "query L keyword = replace_char 32 45 (lower L (strip L (cleaned L keyword)))"

definition build_search_query :: "pylib \<Rightarrow> pstr \<Rightarrow> pstr" where
  "build_search_query L keyword =
     (let q = query L keyword;
          subdomain = (case idna L q of Some a \<Rightarrow> a | None \<Rightarrow> q)
      in S ''https://'' @ subdomain @ S ''.'' @ BASE_URL)"

text \<open>
  The slug as the specification words it: after the same stripping, trimming and
  lower-casing, every maximal run of whitespace becomes one hyphen.
\<close>

fun hyphenate_runs :: "pylib \<Rightarrow> bool \<Rightarrow> pstr \<Rightarrow> pstr" where
  "hyphenate_runs L in_run [] = []"
| "hyphenate_runs L in_run (c # cs) =
     (if is_space L c
      then (if in_run then hyphenate_runs L True cs else 45 # hyphenate_runs L True cs)
      else c # hyphenate_runs L False cs)"

definition spec_slug :: "pylib \<Rightarrow> pstr \<Rightarrow> pstr" where
  "spec_slug L keyword = hyphenate_runs L False (lower L (strip L (cleaned L keyword)))"

text \<open>Whitespace occurs only as single space characters with no whitespace next to them.\<close>

fun single_spaced :: "pylib \<Rightarrow> pstr \<Rightarrow> bool" where
  "single_spaced L [] = True"
| "single_spaced L [c] = (is_space L c \<longrightarrow> c = 32)"
| "single_spaced L (c # d # cs) =
     ((is_space L c \<longrightarrow> c = 32 \<and> \<not> is_space L d) \<and> single_spaced L (d # cs))"

section \<open>Errors\<close>

text \<open>
  Every exception the modelled code raises or lets through is a value. \<open>ClientError\<close>
  and \<open>TimeoutError\<close> are what the HTTP library raises (a failed connection, a response
  with an error status, a timeout); \<open>RetryError\<close> is what the retry library raises
  around the failure of the last attempt; the others are raised by the repository's own
  code or by the interpreter. Each carries its message.
\<close>

datatype error =
    MusicServiceError pstr
  | ClientError pstr
  | TimeoutError pstr
  | TypeError pstr
  | ValueError pstr
  | KeyError pstr
  | IndexError pstr
  | RetryError error

text \<open>The two exceptions the page parser raises on a page of the wrong shape.\<close>

fun is_parse_error :: "error \<Rightarrow> bool" where
  "is_parse_error (TypeError m) = True"
| "is_parse_error (ValueError m) = True"
| "is_parse_error e = False"

fun is_network_error :: "error \<Rightarrow> bool" where
  "is_network_error (ClientError m) = True"
| "is_network_error (TimeoutError m) = True"
| "is_network_error e = False"

section \<open>Track model (\<open>Track\<close>)\<close>

text \<open>
  The dataclass declares \<open>index: int\<close> and four \<open>str\<close> fields. \<open>from_element\<close> fills
  the four with strings; \<open>from_dict\<close> stores whatever values the mapping holds, so the
  record is polymorphic in the type of these fields.
\<close>

record 'v track =
  index :: int
  name :: 'v
  title :: 'v
  performer :: 'v
  audio_url :: 'v

datatype pyval = PInt int | PStr pstr

text \<open>
  \<open>int(x)\<close> for a string \<open>x\<close> of ASCII characters: surrounding whitespace (TAB, LF, VT,
  FF, CR and the space, a smaller set than \<open>str.isspace\<close>) is ignored, one sign is
  allowed, then decimal digits, with single underscores between digits only. A string
  with characters beyond ASCII is left to the library parameter. The interpreter's limit
  on the number of digits converted (4300 by default) is not modelled, and the message
  of the \<open>ValueError\<close> is given without the quoted literal the interpreter appends.
\<close>

definition int_space :: "nat \<Rightarrow> bool" where
  "int_space c = ((9 \<le> c \<and> c \<le> 13) \<or> c = 32)"

definition int_strip :: "pstr \<Rightarrow> pstr" where
  "int_strip s = rev (dropWhile int_space (rev (dropWhile int_space s)))"

definition is_digit :: "nat \<Rightarrow> bool" where
  "is_digit c = (48 \<le> c \<and> c \<le> 57)"

fun digits_value :: "nat \<Rightarrow> pstr \<Rightarrow> nat option" where
  "digits_value acc [] = Some acc"
| "digits_value acc (c # cs) =
     (if is_digit c then digits_value (10 * acc + (c - 48)) cs
      else if c = 95 \<and> (case cs of [] \<Rightarrow> False | d # ds \<Rightarrow> is_digit d) then digits_value acc cs
      else None)"

definition parse_digits :: "pstr \<Rightarrow> nat option" where
  "parse_digits s =
     (case s of [] \<Rightarrow> None | c # cs \<Rightarrow> if is_digit c then digits_value 0 s else None)"

definition int_of_str :: "pylib \<Rightarrow> pstr \<Rightarrow> int option" where
  "int_of_str L s =
     (if \<exists>c \<in> set s. 128 \<le> c then u_int L s
      else case int_strip s of
             [] \<Rightarrow> None
           | c # cs \<Rightarrow>
               if c = 45 then map_option (\<lambda>n. - int n) (parse_digits cs)
               else if c = 43 then map_option int (parse_digits cs)
               else map_option int (parse_digits (c # cs)))"

definition py_int :: "pylib \<Rightarrow> pyval \<Rightarrow> error + int" where
  "py_int L v =
     (case v of
        PInt i \<Rightarrow> Inr i
      | PStr s \<Rightarrow>
          (case int_of_str L s of
             Some i \<Rightarrow> Inr i
           | None \<Rightarrow> Inl (ValueError (S ''invalid literal for int() with base 10''))))"

text \<open>\<open>data[key]\<close> on a dict.\<close>

definition getitem :: "(pstr \<rightharpoonup> 'v) \<Rightarrow> pstr \<Rightarrow> error + 'v" where
  "getitem data key = (case data key of None \<Rightarrow> Inl (KeyError key) | Some v \<Rightarrow> Inr v)"

text \<open>\<open>Track.from_dict\<close>: the keyword arguments are evaluated in the order written.\<close>

definition from_dict ::
  "pylib \<Rightarrow> (pstr \<rightharpoonup> pyval) \<Rightarrow> error + pyval track" where
  "from_dict L data =
     (case getitem data (S ''index'') of Inl e \<Rightarrow> Inl e | Inr iv \<Rightarrow>
      case py_int L iv of Inl e \<Rightarrow> Inl e | Inr i \<Rightarrow>
      case getitem data (S ''name'') of Inl e \<Rightarrow> Inl e | Inr n \<Rightarrow>
      case getitem data (S ''title'') of Inl e \<Rightarrow> Inl e | Inr t \<Rightarrow>
      case getitem data (S ''performer'') of Inl e \<Rightarrow> Inl e | Inr p \<Rightarrow>
      case getitem data (S ''audio_url'') of Inl e \<Rightarrow> Inl e | Inr a \<Rightarrow>
        Inr \<lparr> index = i, name = n, title = t, performer = p, audio_url = a \<rparr>)"

text \<open>The mapping of a Track's own fields, keyed by field name.\<close>

definition field_mapping :: "pyval track \<Rightarrow> (pstr \<rightharpoonup> pyval)" where
  "field_mapping t =
     [S ''index'' \<mapsto> PInt (index t), S ''name'' \<mapsto> name t, S ''title'' \<mapsto> title t,
      S ''performer'' \<mapsto> performer t, S ''audio_url'' \<mapsto> audio_url t]"

section \<open>Document tree\<close>

text \<open>
  The tree the HTML library builds from a page: an element has a tag name, the list of
  its classes (the library splits the \<open>class\<close> attribute at whitespace), its other
  attributes and its children; a string node holds a string and the class the library
  gave it. \<open>find\<close> and \<open>find_all\<close> search the descendants of a node in document
  order, never the node itself; a search by class matches an element one of whose classes
  is the given word.

  The classes of strings: ordinary text is a plain \<open>NavigableString\<close>; a CDATA section,
  a comment, and a declaration (doctype, processing instruction) have classes of their
  own; text whose innermost enclosing container element is \<open>script\<close>, \<open>style\<close>,
  \<open>template\<close>, \<open>rt\<close> or \<open>rp\<close> has the class of that container (the last two since
  version 4.10 of the library).
\<close>

datatype string_kind =
    PlainText | CData | Comment | Declaration
  | Script | Stylesheet | TemplateString | RubyTextString | RubyParenthesisString

datatype node =
    Tag (tag_name: pstr) (classes: "pstr list") (attrs: "(pstr \<times> pstr) list") (children: "node list")
  | NavigableString string_kind pstr

fun descendants :: "node \<Rightarrow> node list" where
  "descendants (NavigableString k s) = []"
| "descendants (Tag n cs as ks) = concat (map (\<lambda>k. k # descendants k) ks)"

text \<open>
  \<open>element.text\<close> joins the strings below the element, in document order, whose class is
  one the element is interested in: for a \<open>script\<close>, \<open>style\<close>, \<open>template\<close>, \<open>rt\<close> or
  \<open>rp\<close> element the class of its own content, for every other element plain text and
  CDATA. So the text of an ordinary element leaves out comments, declarations and what
  stands inside those containers.
\<close>

fun all_strings :: "node \<Rightarrow> (string_kind \<times> pstr) list" where
  "all_strings (NavigableString k s) = [(k, s)]"
| "all_strings (Tag n cs as ks) = concat (map all_strings ks)"

definition interesting_string_types :: "pstr \<Rightarrow> string_kind list" where
  "interesting_string_types n =
     (if n = S ''script'' then [Script]
      else if n = S ''style'' then [Stylesheet]
      else if n = S ''template'' then [TemplateString]
      else if n = S ''rt'' then [RubyTextString]
      else if n = S ''rp'' then [RubyParenthesisString]
      else [PlainText, CData])"

fun get_text :: "node \<Rightarrow> pstr" where
  "get_text (NavigableString k s) = s"
| "get_text (Tag n cs as ks) =
     concat (map snd (filter (\<lambda>p. fst p \<in> set (interesting_string_types n))
                             (concat (map all_strings ks))))"

fun has_class :: "pstr \<Rightarrow> node \<Rightarrow> bool" where
  "has_class c (Tag n cs as ks) = (c \<in> set cs)"
| "has_class c (NavigableString k s) = False"

fun is_tag :: "pstr \<Rightarrow> node \<Rightarrow> bool" where
  "is_tag t (Tag n cs as ks) = (n = t)"
| "is_tag t (NavigableString k s) = False"

definition bs_find :: "(node \<Rightarrow> bool) \<Rightarrow> node \<Rightarrow> node option" where
  "bs_find P n = (case filter P (descendants n) of [] \<Rightarrow> None | x # xs \<Rightarrow> Some x)"

definition find_all :: "(node \<Rightarrow> bool) \<Rightarrow> node \<Rightarrow> node list" where
  "find_all P n = filter P (descendants n)"

text \<open>\<open>element.get(key, default)\<close>.\<close>

fun get_attr :: "node \<Rightarrow> pstr \<Rightarrow> pstr \<Rightarrow> pstr" where
  "get_attr (Tag n cs as ks) key dflt = (case map_of as key of None \<Rightarrow> dflt | Some v \<Rightarrow> v)"
| "get_attr (NavigableString k s) key dflt = dflt"

section \<open>Page parser (\<open>Track.from_element\<close> and the parsing steps of \<open>Music._parse_tracks\<close>)\<close>

definition from_element :: "pylib \<Rightarrow> node \<Rightarrow> int \<Rightarrow> error + pstr track" where
  "from_element L element idx =
     (case bs_find (has_class (S ''playlist-name-artist'')) element of
        None \<Rightarrow> Inl (ValueError (S ''Could not find artist name element''))
      | Some artist_name_element \<Rightarrow>
     (case bs_find (has_class (S ''playlist-name-title'')) element of
        None \<Rightarrow> Inl (ValueError (S ''Could not find artist name element''))
      | Some track_name_element \<Rightarrow>
          (let performer = strip L (get_text artist_name_element);
               title = strip L (get_text track_name_element);
               full_name = performer @ S '' - '' @ title
           in case bs_find (has_class (S ''playlist-play'')) element of
                None \<Rightarrow> Inl (TypeError (S ''Could not find audio URL element''))
              | Some play \<Rightarrow>
                  Inr \<lparr> index = idx, name = full_name, title = title, performer = performer,
                        audio_url = get_attr play (S ''data-url'') [] \<rparr>)))"

text \<open>
  The list comprehension over \<open>enumerate(playlist.find_all("li"))\<close>: items are built in
  order, and the first one that raises ends the comprehension with its exception.
\<close>

fun from_elements :: "pylib \<Rightarrow> nat \<Rightarrow> node list \<Rightarrow> error + pstr track list" where
  "from_elements L i [] = Inr []"
| "from_elements L i (e # es) =
     (case from_element L e (int i) of
        Inl err \<Rightarrow> Inl err
      | Inr t \<Rightarrow>
          (case from_elements L (Suc i) es of
             Inl err \<Rightarrow> Inl err
           | Inr ts \<Rightarrow> Inr (t # ts)))"

definition playlist_items :: "node \<Rightarrow> node list" where
  "playlist_items playlist = find_all (is_tag (S ''li'')) playlist"

definition parse_soup :: "pylib \<Rightarrow> node \<Rightarrow> error + pstr track list" where
  "parse_soup L soup =
     (case bs_find (\<lambda>n. is_tag (S ''ul'') n \<and> has_class (S ''playlist'') n) soup of
        None \<Rightarrow> Inl (TypeError (S ''Could not find playlist element''))
      | Some playlist \<Rightarrow> from_elements L 0 (playlist_items playlist))"

section \<open>Scraping client (\<open>Music\<close>)\<close>

subsection \<open>The network and what the client does to it\<close>

text \<open>
  A response has its status, the text of the error \<open>raise_for_status\<close> raises for it,
  the advertised content length when there is one, and the outcome of reading the body:
  the document tree for a page, the bytes for an audio file, or the error raised while
  reading. The network answers the \<open>n\<close>-th request of a run for a URL with a response or
  with the error \<open>session.get\<close> raises. The world records every URL requested and
  how many bodies were read.
\<close>

record 'b response =
  status :: nat
  reason :: pstr
  content_length :: "nat option"
  body :: "error + 'b"

type_synonym 'b network = "nat \<Rightarrow> pstr \<Rightarrow> error + 'b response"

record world =
  requests :: "pstr list"
  body_reads :: nat

definition session_get :: "'b network \<Rightarrow> pstr \<Rightarrow> world \<Rightarrow> (error + 'b response) \<times> world" where
  "session_get net url w = (net (length (requests w)) url, w\<lparr>requests := requests w @ [url]\<rparr>)"

definition raise_for_status :: "'b response \<Rightarrow> error + unit" where
  "raise_for_status r = (if 400 \<le> status r then Inl (ClientError (reason r)) else Inr ())"

definition read_body :: "'b response \<Rightarrow> world \<Rightarrow> (error + 'b) \<times> world" where
  "read_body r w = (body r, w\<lparr>body_reads := body_reads w + 1\<rparr>)"

subsection \<open>Configuration and session\<close>

type_synonym headers = "(pstr \<times> pstr) list"

record service_config =
  timeout :: int
  headers :: headers

record music =
  config :: service_config
  session :: "headers option"

definition new_music :: "service_config \<Rightarrow> music" where
  "new_music cfg = \<lparr> config = cfg, session = None \<rparr>"

definition connect :: "music \<Rightarrow> music" where
  "connect m = (if session m = None then m\<lparr>session := Some (headers (config m))\<rparr> else m)"

definition disconnect :: "music \<Rightarrow> music" where
  "disconnect m = (if session m \<noteq> None then m\<lparr>session := None\<rparr> else m)"

subsection \<open>The retry decorator\<close>

text \<open>
  \<open>@retry(stop=stop_after_attempt(3), wait=wait_exponential(...))\<close> with the library's
  defaults for everything else: an attempt that raises any exception is followed by
  another one, until the third; when the third raises too, the decorator raises
  \<open>RetryError\<close> around that last failure (the decorator is not given \<open>reraise=True\<close>).
  \<open>retrying n f\<close> runs \<open>f\<close> with \<open>n\<close> further attempts allowed after this one. The
  waiting between attempts changes no state and is left out.
\<close>

fun retrying ::
  "nat \<Rightarrow> (world \<Rightarrow> (error + 'a) \<times> world) \<Rightarrow> world \<Rightarrow> (error + 'a) \<times> world" where
  "retrying 0 f w =
     (case f w of (Inl e, w') \<Rightarrow> (Inl (RetryError e), w') | (Inr v, w') \<Rightarrow> (Inr v, w'))"
| "retrying (Suc n) f w =
     (case f w of (Inl e, w') \<Rightarrow> retrying n f w' | (Inr v, w') \<Rightarrow> (Inr v, w'))"

definition retry3 :: "(world \<Rightarrow> (error + 'a) \<times> world) \<Rightarrow> world \<Rightarrow> (error + 'a) \<times> world" where
  "retry3 f = retrying 2 f"

subsection \<open>\<open>_parse_tracks\<close>\<close>

text \<open>The \<open>try\<close> block of one attempt.\<close>

definition parse_tracks_try ::
  "pylib \<Rightarrow> music \<Rightarrow> node network \<Rightarrow> pstr \<Rightarrow> world \<Rightarrow> (error + pstr track list) \<times> world" where
  "parse_tracks_try L m net url w =
     (if session m = None then (Inl (MusicServiceError (S ''Failed to initialize session'')), w)
      else case session_get net url w of
             (Inl e, w1) \<Rightarrow> (Inl e, w1)
           | (Inr r, w1) \<Rightarrow>
               (case raise_for_status r of
                  Inl e \<Rightarrow> (Inl e, w1)
                | Inr u \<Rightarrow>
                    (case read_body r w1 of
                       (Inl e, w2) \<Rightarrow> (Inl e, w2)
                     | (Inr soup, w2) \<Rightarrow> (parse_soup L soup, w2))))"

text \<open>
  \<open>except (aiohttp.ClientError, TimeoutError) as e: raise MusicServiceError(...) from e\<close>:
  these two are replaced, any other exception passes.
\<close>

fun search_failure :: "error \<Rightarrow> error" where
  "search_failure (ClientError msg) = MusicServiceError (S ''Failed to search music: '' @ msg)"
| "search_failure (TimeoutError msg) = MusicServiceError (S ''Failed to search music: '' @ msg)"
| "search_failure e = e"

definition parse_tracks_attempt ::
  "pylib \<Rightarrow> music \<Rightarrow> node network \<Rightarrow> pstr \<Rightarrow> world \<Rightarrow> (error + pstr track list) \<times> world" where
  "parse_tracks_attempt L m net url w =
     (case parse_tracks_try L m net url w of
        (Inl e, w') \<Rightarrow> (Inl (search_failure e), w')
      | (Inr ts, w') \<Rightarrow> (Inr ts, w'))"

definition parse_tracks ::
  "pylib \<Rightarrow> music \<Rightarrow> node network \<Rightarrow> pstr \<Rightarrow> world \<Rightarrow> (error + pstr track list) \<times> world" where
  "parse_tracks L m net url = retry3 (parse_tracks_attempt L m net url)"

subsection \<open>\<open>search\<close> and \<open>get_top_hits\<close>\<close>

definition search ::
  "pylib \<Rightarrow> music \<Rightarrow> node network \<Rightarrow> pstr \<Rightarrow> world \<Rightarrow> (error + pstr track list) \<times> world" where
  "search L m net keyword w =
     (if session m = None then (Inl (MusicServiceError (S ''Failed to initialize session'')), w)
      else parse_tracks L m net (build_search_query L keyword) w)"

definition get_top_hits ::
  "pylib \<Rightarrow> music \<Rightarrow> node network \<Rightarrow> world \<Rightarrow> (error + pstr track list) \<times> world" where
  "get_top_hits L m net w = parse_tracks L m net (S ''https://'' @ BASE_URL) w"

subsection \<open>\<open>get_audio_bytes\<close>\<close>

text \<open>\<open>str(n)\<close> for an integer: decimal digits, with a minus sign when negative.\<close>

fun str_nat :: "nat \<Rightarrow> pstr" where
  "str_nat n = (if n < 10 then [48 + n] else str_nat (n div 10) @ [48 + n mod 10])"

declare str_nat.simps [simp del]

definition str_int :: "int \<Rightarrow> pstr" where
  "str_int i = (if i < 0 then 45 # str_nat (nat (- i)) else str_nat (nat i))"

definition max_size :: nat where
  "max_size = 50 * 1024 * 1024"

fun download_failure :: "error \<Rightarrow> error" where
  "download_failure (ClientError msg) = MusicServiceError (S ''Failed to download audio'')"
| "download_failure (TimeoutError msg) = MusicServiceError (S ''Failed to download audio'')"
| "download_failure e = e"

text \<open>The \<open>try\<close> block: \<open>if content_length and content_length > max_size\<close> lets an absent
  length and a length of zero through.\<close>

definition audio_try ::
  "nat list network \<Rightarrow> pstr track \<Rightarrow> world \<Rightarrow> (error + nat list) \<times> world" where
  "audio_try net t w =
     (case session_get net (audio_url t) w of
        (Inl e, w1) \<Rightarrow> (Inl e, w1)
      | (Inr r, w1) \<Rightarrow>
          (case raise_for_status r of
             Inl e \<Rightarrow> (Inl e, w1)
           | Inr u \<Rightarrow>
               (case content_length r of
                  None \<Rightarrow> read_body r w1
                | Some n \<Rightarrow>
                    if n \<noteq> 0 \<and> n > max_size
                    then (Inl (MusicServiceError
                                 (S ''File too large: '' @ str_nat n @ S '' bytes'')), w1)
                    else read_body r w1)))"

definition audio_attempt ::
  "music \<Rightarrow> nat list network \<Rightarrow> pstr track \<Rightarrow> world \<Rightarrow> (error + nat list) \<times> world" where
  "audio_attempt m net t w =
     (if session m = None then (Inl (MusicServiceError (S ''Failed to initialize session'')), w)
      else case audio_try net t w of
             (Inl e, w') \<Rightarrow> (Inl (download_failure e), w')
           | (Inr bs, w') \<Rightarrow> (Inr bs, w'))"

definition get_audio_bytes ::
  "music \<Rightarrow> nat list network \<Rightarrow> pstr track \<Rightarrow> world \<Rightarrow> (error + nat list) \<times> world" where
  "get_audio_bytes m net t = retry3 (audio_attempt m net t)"

section \<open>Conversation layer\<close>

subsection \<open>\<open>get_search_results_keyboard\<close>\<close>

record inline_button =
  button_text :: pstr
  callback_data :: pstr

definition get_search_results_keyboard :: "pstr track list \<Rightarrow> int \<Rightarrow> inline_button list list" where
  "get_search_results_keyboard tracks search_id =
     map (\<lambda>(i, t).
            [\<lparr> button_text = str_int (int i + 1) @ S ''. '' @ performer t @ S '' - '' @ title t,
               callback_data = S ''track:get:'' @ str_int search_id @ S '':'' @ str_int (int i) \<rparr>])
         (enumerate 0 (take 10 tracks))"

subsection \<open>\<open>track_callback_handler\<close>\<close>

text \<open>\<open>s.split(sep)\<close> for a separator of one character.\<close>

fun split_on :: "nat \<Rightarrow> pstr \<Rightarrow> pstr list" where
  "split_on sep [] = [[]]"
| "split_on sep (c # cs) =
     (if c = sep then [] # split_on sep cs
      else (case split_on sep cs of [] \<Rightarrow> [[c]] | p # ps \<Rightarrow> (c # p) # ps))"

text \<open>\<open>xs[i]\<close> on a list: a negative index counts from the end.\<close>

definition list_get :: "'a list \<Rightarrow> int \<Rightarrow> error + 'a" where
  "list_get xs i =
     (if 0 \<le> i \<and> i < int (length xs) then Inr (xs ! nat i)
      else if i < 0 \<and> - int (length xs) \<le> i then Inr (xs ! nat (int (length xs) + i))
      else Inl (IndexError (S ''list index out of range'')))"

text \<open>
  What the handler does with a callback: it answers that the results are stale, starts the
  download of a track, does nothing (an action other than \<open>get\<close>), or answers with the
  generic error after an exception.
\<close>

datatype 'v callback_outcome = Stale | Download "'v track" | NoAction | Failed error

definition track_callback_handler ::
  "pylib \<Rightarrow> (int \<rightharpoonup> 'v track list) \<Rightarrow> pstr \<Rightarrow> 'v callback_outcome" where
  "track_callback_handler L search_history callback_data_in =
     (let data = split_on 58 callback_data_in in
      case list_get data 1 of Inl e \<Rightarrow> Failed e | Inr action \<Rightarrow>
      case list_get data 2 of Inl e \<Rightarrow> Failed e | Inr d2 \<Rightarrow>
      case py_int L (PStr d2) of Inl e \<Rightarrow> Failed e | Inr search_id \<Rightarrow>
      case search_history search_id of None \<Rightarrow> Stale | Some tracks \<Rightarrow>
        if action = S ''get'' then
          (case list_get data 3 of Inl e \<Rightarrow> Failed e | Inr d3 \<Rightarrow>
           case py_int L (PStr d3) of Inl e \<Rightarrow> Failed e | Inr track_index \<Rightarrow>
           case list_get tracks track_index of Inl e \<Rightarrow> Failed e | Inr t \<Rightarrow> Download t)
        else NoAction)"

section \<open>Predicates of the claims and example inputs\<close>

text \<open>An item that lacks one of the three sub-elements \<open>from_element\<close> looks for.\<close>

definition lacks_required :: "node \<Rightarrow> bool" where
  "lacks_required e =
     (bs_find (has_class (S ''playlist-name-artist'')) e = None \<or>
      bs_find (has_class (S ''playlist-name-title'')) e = None \<or>
      bs_find (has_class (S ''playlist-play'')) e = None)"

text \<open>A string with no whitespace at either end.\<close>

definition trimmed :: "pylib \<Rightarrow> pstr \<Rightarrow> bool" where
  "trimmed L s = (if s = [] then True else \<not> is_space L (hd s) \<and> \<not> is_space L (last s))"

text \<open>
  The two ways an attempt of \<open>_parse_tracks\<close> fails: in the network (the request raises a
  network exception, the response has an error status, or reading the body raises a
  network exception), or in the page (the response arrives and the parser raises).
\<close>

definition network_failure :: "'b network \<Rightarrow> pstr \<Rightarrow> world \<Rightarrow> bool" where
  "network_failure net url w =
     (case net (length (requests w)) url of
        Inl e \<Rightarrow> is_network_error e
      | Inr r \<Rightarrow> 400 \<le> status r \<or> (case body r of Inl e \<Rightarrow> is_network_error e | Inr b \<Rightarrow> False))"

definition page_failure :: "pylib \<Rightarrow> node network \<Rightarrow> pstr \<Rightarrow> world \<Rightarrow> bool" where
  "page_failure L net url w =
     (case net (length (requests w)) url of
        Inl e \<Rightarrow> False
      | Inr r \<Rightarrow> status r < 400 \<and>
          (case body r of Inl e \<Rightarrow> False | Inr soup \<Rightarrow> isl (parse_soup L soup)))"

text \<open>Markup of the shape the site serves, for evaluating the parser.\<close>

definition span :: "pstr \<Rightarrow> pstr \<Rightarrow> node" where
  "span cls txt = Tag (S ''span'') [cls] [] [NavigableString PlainText txt]"

definition annotated_span :: node where
  "annotated_span =
     Tag (S ''span'') [S ''playlist-name-artist''] []
       [NavigableString PlainText (S ''Daft''), NavigableString Comment (S ''x''),
        Tag (S ''script'') [] [] [NavigableString Script (S ''f()'')],
        NavigableString PlainText (S '' Punk'')]"

definition play_control :: "pstr \<Rightarrow> node" where
  "play_control url = Tag (S ''a'') [S ''playlist-play''] [(S ''data-url'', url)] []"

definition item :: "pstr \<Rightarrow> pstr \<Rightarrow> pstr \<Rightarrow> node" where
  "item artist ttl url =
     Tag (S ''li'') [] []
       [span (S ''playlist-name-artist'') artist, span (S ''playlist-name-title'') ttl,
        play_control url]"

definition item_without_title :: "pstr \<Rightarrow> pstr \<Rightarrow> node" where
  "item_without_title artist url =
     Tag (S ''li'') [] [] [span (S ''playlist-name-artist'') artist, play_control url]"

definition playlist_of :: "node list \<Rightarrow> node" where
  "playlist_of items = Tag (S ''ul'') [S ''playlist''] [] items"

definition page :: "node list \<Rightarrow> node" where
  "page items = Tag (S ''html'') [] [] [playlist_of items]"

definition items3 :: "node list" where
  "items3 = [item (S ''Daft Punk'') (S ''One More Time'') (S ''u0''),
             item_without_title (S ''Air'') (S ''u1''),
             item (S ''Justice'') (S ''Genesis'') (S ''u2'')]"

definition page2 :: node where
  "page2 = page [item (S '' Daft Punk '') (S ''One More Time'') (S ''u0''),
                 item (S ''Justice'') (S ''Genesis'') (S ''u2'')]"

definition page_without_playlist :: node where
  "page_without_playlist =
     Tag (S ''html'') [] [] [Tag (S ''p'') [] [] [NavigableString PlainText (S ''Not found'')]]"

definition daft_track :: "pstr track" where
  "daft_track = \<lparr> index = 0, name = S ''Daft Punk - One More Time'', title = S ''One More Time'',
                  performer = S ''Daft Punk'', audio_url = S ''u0'' \<rparr>"

definition justice_track :: "pstr track" where
  "justice_track = \<lparr> index = 1, name = S ''Justice - Genesis'', title = S ''Genesis'',
                     performer = S ''Justice'', audio_url = S ''u2'' \<rparr>"

definition some_track :: "pstr track" where
  "some_track = \<lparr> index = 0, name = S ''Air - Run'', title = S ''Run'', performer = S ''Air'',
                  audio_url = S ''https://cdn/run.mp3'' \<rparr>"

definition twelve_tracks :: "pstr track list" where
  "twelve_tracks = replicate 12 daft_track"

text \<open>A client, a world in which nothing was requested yet, and networks that answer
  every request the same way.\<close>

definition default_config :: service_config where
  "default_config = \<lparr> timeout = 30, headers = [] \<rparr>"

definition connected :: music where
  "connected = connect (new_music default_config)"

definition w0 :: world where
  "w0 = \<lparr> requests = [], body_reads = 0 \<rparr>"

definition always :: "(error + 'b response) \<Rightarrow> 'b network" where
  "always r = (\<lambda>n url. r)"

definition ok_response :: "nat option \<Rightarrow> 'b \<Rightarrow> 'b response" where
  "ok_response len b = \<lparr> status = 200, reason = S ''OK'', content_length = len, body = Inr b \<rparr>"

section \<open>Properties of the string operations\<close>

lemma is_space_32: "is_space L 32"
  by (simp add: is_space_def ascii_space_def)

lemma not_space_neq_32: "\<not> is_space L c \<Longrightarrow> c \<noteq> 32"
  using is_space_32 by blast

lemma hyphenate_single_spaced:
  "single_spaced L t \<Longrightarrow> hyphenate_runs L False t = replace_char 32 45 t"
proof (induction L t rule: single_spaced.induct)
  case (1 L)
  then show ?case by (simp add: replace_char_def)
next
  case (2 L c)
  then show ?case
    by (cases "is_space L c") (auto simp: replace_char_def dest: not_space_neq_32)
next
  case (3 L c d cs)
  then show ?case
    by (cases "is_space L c") (auto simp: replace_char_def dest: not_space_neq_32)
qed

lemma replace_char_absent: "old \<noteq> new \<Longrightarrow> old \<notin> set (replace_char old new s)"
  by (auto simp: replace_char_def)

lemma cleaned_punctuation:
  "\<forall>c \<in> set keyword. \<not> is_word L c \<and> \<not> is_space L c \<Longrightarrow> cleaned L keyword = []"
  by (auto simp: cleaned_def filter_empty_conv)

lemma query_of_empty_cleaned: "cleaned L keyword = [] \<Longrightarrow> query L keyword = []"
  by (simp add: query_def strip_def lower_def replace_char_def)

lemma last_dropWhile: "dropWhile P xs \<noteq> [] \<Longrightarrow> last (dropWhile P xs) = last xs"
proof -
  assume a: "dropWhile P xs \<noteq> []"
  have "last xs = last (takeWhile P xs @ dropWhile P xs)" by simp
  also have "\<dots> = last (dropWhile P xs)" using a by (simp only: last_append if_False)
  finally show ?thesis by simp
qed

lemma strip_hd: "strip L s \<noteq> [] \<Longrightarrow> \<not> is_space L (hd (strip L s))"
proof -
  let ?u = "dropWhile (is_space L) s"
  let ?v = "dropWhile (is_space L) (rev ?u)"
  assume "strip L s \<noteq> []"
  then have v: "?v \<noteq> []" by (simp add: strip_def)
  have u: "?u \<noteq> []"
  proof
    assume "?u = []"
    then have "?v = []" by (simp only: rev.simps dropWhile.simps)
    with v show False by blast
  qed
  have "hd (strip L s) = last ?v" using v by (simp add: strip_def hd_rev)
  also have "\<dots> = last (rev ?u)" using v by (rule last_dropWhile)
  also have "\<dots> = hd ?u" using u by (simp add: last_rev)
  finally show ?thesis using u hd_dropWhile [of "is_space L" s] by simp
qed

lemma strip_last: "strip L s \<noteq> [] \<Longrightarrow> \<not> is_space L (last (strip L s))"
proof -
  let ?v = "dropWhile (is_space L) (rev (dropWhile (is_space L) s))"
  assume "strip L s \<noteq> []"
  then have v: "?v \<noteq> []" by (simp add: strip_def)
  have "last (strip L s) = hd ?v" using v by (simp add: strip_def last_rev)
  then show ?thesis using v hd_dropWhile [of "is_space L" "rev (dropWhile (is_space L) s)"] by simp
qed

section \<open>Properties of the query builder\<close>

text \<open>
  C6. A keyword made only of punctuation (no word character, no whitespace) gives exactly
  \<open>https://.\<close> followed by the base domain, and nothing is raised: the slug is empty,
  and the URL is the same whether the codec rejects the empty slug, so that the raw slug
  is used, or encodes it to the empty string.
\<close>

theorem build_search_query_punctuation:
  assumes "\<forall>c \<in> set keyword. \<not> is_word L c \<and> \<not> is_space L c"
    and "idna L [] = None \<or> idna L [] = Some []"
  shows "build_search_query L keyword = S ''https://.'' @ BASE_URL"
proof -
  have "query L keyword = []"
    using assms(1) by (simp add: cleaned_punctuation query_of_empty_cleaned)
  then show ?thesis
    using assms(2) by (auto simp: build_search_query_def)
qed

theorem build_search_query_punctuation_witness:
  "list_all (\<lambda>c. \<not> is_word ascii_lib c \<and> \<not> is_space ascii_lib c) (S ''!?.,'') \<and>
   idna ascii_lib [] = Some [] \<and>
   build_search_query ascii_lib (S ''!?.,'') = S ''https://.vuxo7.com''"
proof -
  have h1: "\<forall>c \<in> set (S ''!?.,''). \<not> is_word ascii_lib c \<and> \<not> is_space ascii_lib c"
    by (simp add: is_word_def is_space_def ascii_word_def ascii_space_def)
  have h2: "idna ascii_lib [] = Some []"
    by (simp add: ascii_lib_def)
  have "build_search_query ascii_lib (S ''!?.,'') = S ''https://.'' @ BASE_URL"
    using h1 h2 by (intro build_search_query_punctuation) simp_all
  then show ?thesis
    using h1 h2 by (simp add: BASE_URL_def list_all_iff)
qed

text \<open>
  C7, as stated, fails: the slug is formed by replacing each whitespace run with a single
  hyphen. With two spaces between the words the code gives two hyphens.
\<close>

theorem query_double_space_counterexample:
  "query ascii_lib (S ''Daft  Punk'') = S ''daft--punk'' \<and>
   spec_slug ascii_lib (S ''Daft  Punk'') = S ''daft-punk''"
  by code_simp

text \<open>
  C7, amended. The slug is exactly the stripped, trimmed and lower-cased keyword in which
  each space character (U+0020) is replaced by one hyphen and every other character,
  other whitespace included, is kept as it is; so it holds no space character and is as
  long as the lower-cased text. Where whitespace occurs in that text only as single spaces
  with no whitespace beside them, as in \<open>Daft Punk\<close>, this is the slug in which every
  whitespace run is one hyphen.
\<close>

theorem query_single_spaced:
  "query L keyword =
     map (\<lambda>c. if c = 32 then 45 else c) (lower L (strip L (cleaned L keyword))) \<and>
   (single_spaced L (lower L (strip L (cleaned L keyword))) \<longrightarrow>
      query L keyword = spec_slug L keyword) \<and>
   32 \<notin> set (query L keyword) \<and>
   length (query L keyword) = length (lower L (strip L (cleaned L keyword)))"
proof (intro conjI impI)
  show "query L keyword =
          map (\<lambda>c. if c = 32 then 45 else c) (lower L (strip L (cleaned L keyword)))"
    by (simp add: query_def replace_char_def)
  show "query L keyword = spec_slug L keyword"
    if "single_spaced L (lower L (strip L (cleaned L keyword)))"
    using that by (simp add: query_def spec_slug_def hyphenate_single_spaced)
  show "32 \<notin> set (query L keyword)"
    by (simp add: query_def replace_char_absent)
  show "length (query L keyword) = length (lower L (strip L (cleaned L keyword)))"
    by (simp add: query_def replace_char_def)
qed

theorem query_single_spaced_witness:
  "single_spaced ascii_lib (lower ascii_lib (strip ascii_lib (cleaned ascii_lib (S ''Daft Punk'')))) \<and>
   query ascii_lib (S ''Daft Punk'') = spec_slug ascii_lib (S ''Daft Punk'') \<and>
   query ascii_lib (S ''Daft Punk'') = S ''daft-punk'' \<and>
   query ascii_lib (S ''Daft  Punk'') =
     map (\<lambda>c. if c = 32 then 45 else c) (S ''daft  punk'')"
proof -
  have h: "single_spaced ascii_lib
             (lower ascii_lib (strip ascii_lib (cleaned ascii_lib (S ''Daft Punk''))))"
    by code_simp
  have v: "spec_slug ascii_lib (S ''Daft Punk'') = S ''daft-punk''"
    by code_simp
  have t: "lower ascii_lib (strip ascii_lib (cleaned ascii_lib (S ''Daft  Punk''))) =
             S ''daft  punk''"
    by code_simp
  have e: "query ascii_lib (S ''Daft Punk'') = spec_slug ascii_lib (S ''Daft Punk'')"
    by (rule query_single_spaced [of ascii_lib "S ''Daft Punk''", THEN conjunct2,
          THEN conjunct1, THEN mp, OF h])
  have d: "query ascii_lib (S ''Daft  Punk'') =
             map (\<lambda>c. if c = 32 then 45 else c) (S ''daft  punk'')"
    using query_single_spaced [of ascii_lib "S ''Daft  Punk''", THEN conjunct1]
    by (simp only: t)
  from h e v d show ?thesis by (simp only: simp_thms)
qed

section \<open>Properties of the page parser\<close>

lemma strip_trimmed: "trimmed L (strip L s)"
  by (simp add: trimmed_def strip_hd strip_last)

lemma get_text_annotated_span: "get_text annotated_span = S ''Daft Punk''"
  by code_simp

lemma from_element_error: "from_element L e i = Inl err \<Longrightarrow> is_parse_error err"
  by (auto simp: from_element_def Let_def split: option.splits)

lemma from_element_lacks: "lacks_required e \<Longrightarrow> \<exists>err. from_element L e i = Inl err"
  by (auto simp: from_element_def lacks_required_def Let_def split: option.splits)

lemma from_element_fields:
  "from_element L e i = Inr t \<Longrightarrow>
     index t = i \<and> name t = performer t @ S '' - '' @ title t \<and>
     (\<exists>a. bs_find (has_class (S ''playlist-name-artist'')) e = Some a \<and>
          performer t = strip L (get_text a)) \<and>
     (\<exists>b. bs_find (has_class (S ''playlist-name-title'')) e = Some b \<and>
          title t = strip L (get_text b))"
  by (auto simp: from_element_def Let_def split: option.splits)

lemma from_elements_error: "from_elements L i es = Inl err \<Longrightarrow> is_parse_error err"
proof (induction es arbitrary: i)
  case Nil
  then show ?case by simp
next
  case (Cons e es)
  then show ?case
    by (auto split: sum.splits dest: from_element_error)
qed

lemma from_elements_lacks:
  "e \<in> set es \<Longrightarrow> lacks_required e \<Longrightarrow> \<exists>err. from_elements L i es = Inl err"
proof (induction es arbitrary: i)
  case Nil
  then show ?case by simp
next
  case (Cons x xs)
  show ?case
  proof (cases "from_element L x (int i)")
    case (Inl err)
    then show ?thesis by simp
  next
    case (Inr t)
    with Cons.prems from_element_lacks [of x L "int i"] have "e \<in> set xs" by auto
    with Cons.IH Cons.prems(2) obtain err where "from_elements L (Suc i) xs = Inl err" by blast
    with Inr show ?thesis by simp
  qed
qed

lemma from_elements_index:
  "from_elements L i es = Inr ts \<Longrightarrow> map index ts = map int [i ..< i + length ts]"
proof (induction es arbitrary: i ts)
  case Nil
  then show ?case by simp
next
  case (Cons e es)
  then obtain t ts' where t: "from_element L e (int i) = Inr t"
    and ts': "from_elements L (Suc i) es = Inr ts'" and eq: "ts = t # ts'"
    by (auto split: sum.splits)
  from t have "index t = int i" by (simp add: from_element_fields)
  moreover from Cons.IH ts' have "map index ts' = map int [Suc i ..< Suc i + length ts']" .
  moreover have "[i ..< i + length ts] = i # [Suc i ..< Suc i + length ts']"
    using eq by (simp add: upt_conv_Cons del: upt_Suc)
  ultimately show ?case using eq by (simp del: upt_Suc)
qed

lemma parse_soup_index: "parse_soup L soup = Inr ts \<Longrightarrow> map index ts = map int [0 ..< length ts]"
  by (auto simp: parse_soup_def split: option.splits dest: from_elements_index)

text \<open>
  C4. When any one item of the playlist container lacks a required sub-element (the
  performer, the title or the play control), parsing the page raises one of the parser's
  exceptions and returns no sequence, whatever the other items are.
\<close>

theorem parse_soup_malformed_item:
  assumes "bs_find (\<lambda>n. is_tag (S ''ul'') n \<and> has_class (S ''playlist'') n) soup = Some playlist"
    and "e \<in> set (playlist_items playlist)"
    and "lacks_required e"
  shows "\<exists>err. parse_soup L soup = Inl err \<and> is_parse_error err"
proof -
  from assms(2,3) obtain err where e: "from_elements L 0 (playlist_items playlist) = Inl err"
    using from_elements_lacks by blast
  then have "is_parse_error err" by (rule from_elements_error)
  with e assms(1) show ?thesis by (simp add: parse_soup_def)
qed

theorem parse_soup_malformed_item_witness:
  "lacks_required (item_without_title (S ''Air'') (S ''u1'')) \<and>
   (\<exists>err. parse_soup ascii_lib (page items3) = Inl err \<and> is_parse_error err) \<and>
   parse_soup ascii_lib (page items3) = Inl (ValueError (S ''Could not find artist name element''))"
proof -
  have h1: "bs_find (\<lambda>n. is_tag (S ''ul'') n \<and> has_class (S ''playlist'') n) (page items3) =
              Some (playlist_of items3)"
    by code_simp
  have h2: "item_without_title (S ''Air'') (S ''u1'') \<in> set (playlist_items (playlist_of items3))"
    by code_simp
  have h3: "lacks_required (item_without_title (S ''Air'') (S ''u1''))"
    by code_simp
  have v: "parse_soup ascii_lib (page items3) =
             Inl (ValueError (S ''Could not find artist name element''))"
    by code_simp
  from h1 h2 h3 have "\<exists>err. parse_soup ascii_lib (page items3) = Inl err \<and> is_parse_error err"
    by (rule parse_soup_malformed_item)
  with h3 v show ?thesis by blast
qed

text \<open>
  C5, as stated, fails: a successfully constructed Track has a non-empty performer and
  title. An item whose performer element holds only whitespace gives a Track with the
  empty performer.
\<close>

theorem from_element_empty_performer_counterexample:
  "from_element ascii_lib (item (S ''  '') (S ''One More Time'') (S ''u0'')) 0 =
     Inr \<lparr> index = 0, name = S '' - One More Time'', title = S ''One More Time'',
           performer = [], audio_url = S ''u0'' \<rparr>"
  by code_simp

text \<open>
  C5, amended. In every Track the parser constructs from a markup item, the performer and
  the title are the trimmed texts of the item's performer and title elements (no
  whitespace at either end; they may be empty), and the name is the performer followed by
  \<open>" - "\<close> and the title.
\<close>

theorem from_element_track:
  assumes "from_element L e i = Inr t"
  shows "name t = performer t @ S '' - '' @ title t \<and>
         (\<exists>a. bs_find (has_class (S ''playlist-name-artist'')) e = Some a \<and>
              performer t = strip L (get_text a)) \<and>
         (\<exists>b. bs_find (has_class (S ''playlist-name-title'')) e = Some b \<and>
              title t = strip L (get_text b)) \<and>
         trimmed L (performer t) \<and> trimmed L (title t)"
proof -
  have f: "name t = performer t @ S '' - '' @ title t"
    and p: "\<exists>a. bs_find (has_class (S ''playlist-name-artist'')) e = Some a \<and>
                performer t = strip L (get_text a)"
    and q: "\<exists>b. bs_find (has_class (S ''playlist-name-title'')) e = Some b \<and>
                title t = strip L (get_text b)"
    using from_element_fields [OF assms] by blast+
  from p have "trimmed L (performer t)" by (auto simp: strip_trimmed)
  moreover from q have "trimmed L (title t)" by (auto simp: strip_trimmed)
  ultimately show ?thesis using f p q by blast
qed

theorem from_element_track_witness:
  "from_element ascii_lib (item (S '' Daft Punk '') (S ''One More Time'') (S ''u0'')) 0 =
     Inr daft_track \<and>
   name daft_track = performer daft_track @ S '' - '' @ title daft_track \<and>
   trimmed ascii_lib (performer daft_track) \<and> trimmed ascii_lib (title daft_track) \<and>
   performer daft_track = S ''Daft Punk''"
proof -
  have h: "from_element ascii_lib (item (S '' Daft Punk '') (S ''One More Time'') (S ''u0'')) 0 =
             Inr daft_track"
    by code_simp
  have v: "performer daft_track = S ''Daft Punk''"
    by (simp add: daft_track_def)
  from from_element_track [OF h] h v show ?thesis by blast
qed

section \<open>Properties of the scraping client\<close>

lemma retrying_Inr:
  "fst (retrying n f w) = Inr v \<Longrightarrow> \<exists>w'. fst (f w') = Inr v"
proof (induction n arbitrary: w)
  case 0
  obtain r w1 where fw: "f w = (r, w1)" by (cases "f w")
  with 0 have "r = Inr v" by (cases r) simp_all
  with fw have "fst (f w) = Inr v" by simp
  then show ?case ..
next
  case (Suc n)
  obtain r w1 where fw: "f w = (r, w1)" by (cases "f w")
  show ?case
  proof (cases r)
    case (Inl e)
    with fw Suc.prems have "fst (retrying n f w1) = Inr v" by simp
    then show ?thesis by (rule Suc.IH)
  next
    case (Inr x)
    with fw Suc.prems have "fst (f w) = Inr v" by simp
    then show ?thesis ..
  qed
qed

lemma search_failure_not_network: "\<not> is_network_error (search_failure e)"
  by (cases e) simp_all

lemma search_failure_network: "is_network_error e \<Longrightarrow> \<exists>msg. search_failure e = MusicServiceError msg"
  by (cases e) simp_all

lemma search_failure_parse: "is_parse_error e \<Longrightarrow> search_failure e = e"
  by (cases e) simp_all

lemma parse_soup_error: "parse_soup L soup = Inl e \<Longrightarrow> is_parse_error e"
  by (auto simp: parse_soup_def split: option.splits dest: from_elements_error)

lemma attempt_error_not_network:
  "fst (parse_tracks_attempt L m net url w) = Inl e \<Longrightarrow> \<not> is_network_error e"
  by (auto simp: parse_tracks_attempt_def search_failure_not_network split: prod.splits sum.splits)

lemma attempt_network_failure:
  "session m \<noteq> None \<Longrightarrow> network_failure net url w \<Longrightarrow>
     \<exists>msg. fst (parse_tracks_attempt L m net url w) = Inl (MusicServiceError msg)"
  by (auto simp: parse_tracks_attempt_def parse_tracks_try_def network_failure_def session_get_def
        raise_for_status_def read_body_def
      split: sum.splits dest: search_failure_network)

lemma attempt_page_failure:
  "session m \<noteq> None \<Longrightarrow> page_failure L net url w \<Longrightarrow>
     \<exists>e. fst (parse_tracks_attempt L m net url w) = Inl e \<and> is_parse_error e"
  by (auto simp: parse_tracks_attempt_def parse_tracks_try_def page_failure_def session_get_def
        raise_for_status_def read_body_def search_failure_parse isl_def
      split: sum.splits dest: parse_soup_error)

lemma attempt_Inr:
  "fst (parse_tracks_attempt L m net url w) = Inr ts \<Longrightarrow> \<exists>soup. parse_soup L soup = Inr ts"
  by (auto simp: parse_tracks_attempt_def parse_tracks_try_def session_get_def
        raise_for_status_def read_body_def
      split: sum.splits prod.splits if_splits)

lemma parse_tracks_index:
  "fst (parse_tracks L m net url w) = Inr ts \<Longrightarrow> map index ts = map int [0 ..< length ts]"
proof -
  assume "fst (parse_tracks L m net url w) = Inr ts"
  then obtain w' where "fst (parse_tracks_attempt L m net url w') = Inr ts"
    unfolding parse_tracks_def retry3_def
    using retrying_Inr [of 2 "parse_tracks_attempt L m net url" w ts] by blast
  then obtain soup where "parse_soup L soup = Inr ts" using attempt_Inr by blast
  then show ?thesis by (rule parse_soup_index)
qed

lemma search_no_session:
  "session m = None \<Longrightarrow>
     search L m net keyword w = (Inl (MusicServiceError (S ''Failed to initialize session'')), w)"
  by (simp add: search_def)

text \<open>
  C8. In every result set a successful \<open>search\<close> or \<open>get_top_hits\<close> returns, the
  indices are contiguous from 0 and each Track's index is its position in the sequence.
\<close>

theorem result_set_indices:
  "(fst (search L m net keyword w) = Inr ts \<longrightarrow> map index ts = map int [0 ..< length ts]) \<and>
   (fst (get_top_hits L m net w) = Inr ts \<longrightarrow> map index ts = map int [0 ..< length ts])"
  by (auto simp: search_def get_top_hits_def split: if_splits dest: parse_tracks_index)

theorem result_set_indices_witness:
  "fst (search ascii_lib connected (always (Inr (ok_response None page2))) (S ''Daft Punk'') w0) =
     Inr [daft_track, justice_track] \<and>
   fst (get_top_hits ascii_lib connected (always (Inr (ok_response None page2))) w0) =
     Inr [daft_track, justice_track] \<and>
   map index [daft_track, justice_track] = map int [0 ..< length [daft_track, justice_track]]"
proof -
  have h: "fst (search ascii_lib connected (always (Inr (ok_response None page2)))
                  (S ''Daft Punk'') w0) = Inr [daft_track, justice_track]"
    by code_simp
  have g: "fst (get_top_hits ascii_lib connected (always (Inr (ok_response None page2))) w0) =
             Inr [daft_track, justice_track]"
    by code_simp
  from h g result_set_indices [of ascii_lib connected "always (Inr (ok_response None page2))"
      "S ''Daft Punk''" w0 "[daft_track, justice_track]"]
  show ?thesis by blast
qed

text \<open>
  C3. A client is disconnected when it was just created or \<open>disconnect\<close> has been called
  on it. On a disconnected client \<open>search\<close> fails with \<open>MusicServiceError\<close> and leaves
  the world as it was: no URL is requested, the session check comes first.
\<close>

theorem search_disconnected:
  "session (new_music cfg) = None \<and> session (disconnect m) = None \<and>
   (session m' = None \<longrightarrow>
      search L m' net keyword w =
        (Inl (MusicServiceError (S ''Failed to initialize session'')), w))"
  by (simp add: new_music_def disconnect_def search_no_session)

theorem search_disconnected_witness:
  "session (disconnect connected) = None \<and>
   search ascii_lib (disconnect connected) (always (Inr (ok_response None page2)))
     (S ''Daft Punk'') w0 =
     (Inl (MusicServiceError (S ''Failed to initialize session'')), w0) \<and>
   requests w0 = []"
proof -
  have h: "session (disconnect connected) = None"
    by code_simp
  from h search_disconnected [of default_config connected "disconnect connected" ascii_lib
      "always (Inr (ok_response None page2))" "S ''Daft Punk''" w0]
  have "search ascii_lib (disconnect connected) (always (Inr (ok_response None page2)))
          (S ''Daft Punk'') w0 =
          (Inl (MusicServiceError (S ''Failed to initialize session'')), w0)"
    by blast
  with h show ?thesis by (simp add: w0_def)
qed

text \<open>
  C1, as stated, fails: after a failure that persists through all attempts the error
  leaving the client is \<open>MusicServiceError\<close>. A page without the playlist container,
  served on every attempt to a connected client, makes \<open>search\<close> fail with the retry
  library's error around the parser's \<open>TypeError\<close>.
\<close>

theorem search_persistent_failure_counterexample:
  "search ascii_lib connected (always (Inr (ok_response None page_without_playlist)))
     (S ''Daft Punk'') w0 =
     (Inl (RetryError (TypeError (S ''Could not find playlist element''))),
      \<lparr> requests = [S ''https://daft-punk.vuxo7.com'', S ''https://daft-punk.vuxo7.com'',
                     S ''https://daft-punk.vuxo7.com''],
        body_reads = 3 \<rparr>)"
  by code_simp

text \<open>
  C1, amended. In every attempt of the fetch-and-parse behind \<open>search\<close> and
  \<open>get_top_hits\<close>, a network failure (the request or the reading of the body raises a
  network exception, or the response has an error status) is raised as
  \<open>MusicServiceError\<close>, and no network exception leaves the attempt; a failure of the
  parser is raised as the parser's own exception, not as \<open>MusicServiceError\<close>; and
  \<open>search\<close> with no active session fails with \<open>MusicServiceError\<close>.
\<close>

theorem attempt_errors:
  "(session m \<noteq> None \<and> network_failure net url w \<longrightarrow>
      (\<exists>msg. fst (parse_tracks_attempt L m net url w) = Inl (MusicServiceError msg))) \<and>
   (session m \<noteq> None \<and> page_failure L net url w \<longrightarrow>
      (\<exists>e. fst (parse_tracks_attempt L m net url w) = Inl e \<and> is_parse_error e)) \<and>
   (fst (parse_tracks_attempt L m net url w) = Inl e' \<longrightarrow> \<not> is_network_error e') \<and>
   (session m = None \<longrightarrow>
      fst (search L m net keyword w) =
        Inl (MusicServiceError (S ''Failed to initialize session'')))"
  using attempt_network_failure [of m net url w L] attempt_page_failure [of m L net url w]
    attempt_error_not_network [of L m net url w e'] search_no_session [of m L net keyword w]
  by auto

theorem attempt_errors_witness:
  "network_failure (always (Inl (TimeoutError (S ''timed out''))) :: node network)
     (S ''https://daft-punk.vuxo7.com'') w0 \<and>
   (\<exists>msg. fst (parse_tracks_attempt ascii_lib connected
                 (always (Inl (TimeoutError (S ''timed out''))))
                 (S ''https://daft-punk.vuxo7.com'') w0) = Inl (MusicServiceError msg)) \<and>
   page_failure ascii_lib (always (Inr (ok_response None page_without_playlist)))
     (S ''https://daft-punk.vuxo7.com'') w0 \<and>
   (\<exists>e. fst (parse_tracks_attempt ascii_lib connected
               (always (Inr (ok_response None page_without_playlist)))
               (S ''https://daft-punk.vuxo7.com'') w0) = Inl e \<and> is_parse_error e) \<and>
   fst (search ascii_lib (new_music default_config)
          (always (Inr (ok_response None page2))) (S ''Daft Punk'') w0) =
     Inl (MusicServiceError (S ''Failed to initialize session''))"
proof -
  have c: "session connected \<noteq> None"
    by code_simp
  have d: "session (new_music default_config) = None"
    by code_simp
  have n: "network_failure (always (Inl (TimeoutError (S ''timed out''))) :: node network)
             (S ''https://daft-punk.vuxo7.com'') w0"
    by code_simp
  have p: "page_failure ascii_lib (always (Inr (ok_response None page_without_playlist)))
             (S ''https://daft-punk.vuxo7.com'') w0"
    by code_simp
  from c n attempt_errors [of connected "always (Inl (TimeoutError (S ''timed out'')))"
      "S ''https://daft-punk.vuxo7.com''" w0 ascii_lib]
  have a1: "\<exists>msg. fst (parse_tracks_attempt ascii_lib connected
                 (always (Inl (TimeoutError (S ''timed out''))))
                 (S ''https://daft-punk.vuxo7.com'') w0) = Inl (MusicServiceError msg)"
    by blast
  from c p attempt_errors [of connected "always (Inr (ok_response None page_without_playlist))"
      "S ''https://daft-punk.vuxo7.com''" w0 ascii_lib]
  have a2: "\<exists>e. fst (parse_tracks_attempt ascii_lib connected
               (always (Inr (ok_response None page_without_playlist)))
               (S ''https://daft-punk.vuxo7.com'') w0) = Inl e \<and> is_parse_error e"
    by blast
  from d attempt_errors [of "new_music default_config" "always (Inr (ok_response None page2))"
      _ w0 ascii_lib _ "S ''Daft Punk''"]
  have a3: "fst (search ascii_lib (new_music default_config)
                   (always (Inr (ok_response None page2))) (S ''Daft Punk'') w0) =
              Inl (MusicServiceError (S ''Failed to initialize session''))"
    by blast
  from n a1 p a2 a3 show ?thesis by blast
qed

text \<open>
  C2. A download whose response advertises 60 000 000 bytes, more than the ceiling of
  50 MiB, should fail with \<open>MusicServiceError\<close> before the body is read. Each attempt
  raises it and reads no body, but the retry decorator answers the exception with two
  more requests and then raises its own \<open>RetryError\<close> around the last one.
\<close>

theorem get_audio_bytes_oversized:
  "get_audio_bytes connected (always (Inr (ok_response (Some 60000000) [73, 68, 51])))
     some_track w0 =
     (Inl (RetryError (MusicServiceError (S ''File too large: 60000000 bytes''))),
      \<lparr> requests = [S ''https://cdn/run.mp3'', S ''https://cdn/run.mp3'',
                     S ''https://cdn/run.mp3''],
        body_reads = 0 \<rparr>)"
proof -
  have s: "str_nat 60000000 = S ''60000000''"
    by (simp add: str_nat.simps)
  show ?thesis
    by (simp add: get_audio_bytes_def retry3_def numeral_2_eq_2 audio_attempt_def audio_try_def
        session_get_def raise_for_status_def read_body_def connected_def connect_def
        new_music_def default_config_def always_def ok_response_def some_track_def w0_def
        max_size_def s)
qed

section \<open>Properties of the track model\<close>

text \<open>
  C9. Building a Track with \<open>from_dict\<close> from the mapping of a Track's own fields gives
  back that Track, equal in every field.
\<close>

theorem from_dict_round_trip:
  "from_dict L (field_mapping t) = Inr t"
  by (simp add: from_dict_def field_mapping_def getitem_def py_int_def)

section \<open>Properties of the conversation layer\<close>

subsection \<open>Integers and their decimal strings\<close>

lemma str_nat_digits: "\<forall>c \<in> set (str_nat n). is_digit c"
proof (induction n rule: str_nat.induct)
  case (1 n)
  show ?case
  proof (cases "n < 10")
    case True
    then show ?thesis by (simp add: str_nat.simps [of n] is_digit_def)
  next
    case False
    have "n mod 10 < 10" by simp
    then have "is_digit (48 + n mod 10)" unfolding is_digit_def by linarith
    with False 1 show ?thesis by (simp add: str_nat.simps [of n])
  qed
qed

lemma str_nat_nonempty: "str_nat n \<noteq> []"
  by (simp add: str_nat.simps [of n])

lemma digits_value_digit: "d < 10 \<Longrightarrow> digits_value acc ((48 + d) # rest) = digits_value (10 * acc + d) rest"
  by (simp add: is_digit_def)

lemma digits_value_str_nat:
  "digits_value acc (str_nat n @ rest) = digits_value (acc * 10 ^ length (str_nat n) + n) rest"
proof (induction n arbitrary: acc rest rule: str_nat.induct)
  case (1 n)
  show ?case
  proof (cases "n < 10")
    case True
    then show ?thesis by (simp add: str_nat.simps [of n] is_digit_def mult.commute)
  next
    case False
    have s: "str_nat n = str_nat (n div 10) @ [48 + n mod 10]"
      using False by (simp add: str_nat.simps [of n])
    have "digits_value acc (str_nat n @ rest) =
            digits_value acc (str_nat (n div 10) @ ((48 + n mod 10) # rest))"
      by (simp add: s)
    also have "\<dots> = digits_value (acc * 10 ^ length (str_nat (n div 10)) + n div 10)
                        ((48 + n mod 10) # rest)"
      using False by (rule "1.IH")
    also have "\<dots> = digits_value (10 * (acc * 10 ^ length (str_nat (n div 10)) + n div 10) + n mod 10) rest"
      by (rule digits_value_digit) simp
    also have "10 * (acc * 10 ^ length (str_nat (n div 10)) + n div 10) + n mod 10 =
                 acc * 10 ^ length (str_nat n) + n"
      by (simp add: s algebra_simps)
    finally show ?thesis .
  qed
qed

lemma parse_digits_str_nat: "parse_digits (str_nat n) = Some n"
proof -
  obtain c cs where cs: "str_nat n = c # cs"
    using str_nat_nonempty [of n] by (cases "str_nat n") auto
  with str_nat_digits [of n] have "is_digit c" by simp
  moreover have "digits_value 0 (str_nat n) = Some n"
    using digits_value_str_nat [of 0 n "[]"] by simp
  ultimately show ?thesis using cs by (simp add: parse_digits_def)
qed

lemma digit_not_space: "is_digit c \<Longrightarrow> \<not> int_space c"
  by (auto simp: is_digit_def int_space_def)

lemma int_strip_id:
  "s \<noteq> [] \<Longrightarrow> \<not> int_space (hd s) \<Longrightarrow> \<not> int_space (last s) \<Longrightarrow> int_strip s = s"
proof -
  assume a: "s \<noteq> []" "\<not> int_space (hd s)" "\<not> int_space (last s)"
  then have "dropWhile int_space s = s" by (cases s) auto
  moreover have "dropWhile int_space (rev s) = rev s"
    using a by (cases "rev s") (auto simp: last_rev [symmetric] hd_rev)
  ultimately show ?thesis by (simp add: int_strip_def)
qed

lemma str_nat_ascii: "c \<in> set (str_nat n) \<Longrightarrow> c < 128"
  using str_nat_digits [of n] by (auto simp: is_digit_def)

lemma str_nat_sign: "str_nat n = c # cs \<Longrightarrow> c \<noteq> 45 \<and> c \<noteq> 43"
  using str_nat_digits [of n] by (auto simp: is_digit_def)

lemma str_nat_strip: "int_strip (str_nat n) = str_nat n"
proof (rule int_strip_id)
  show "str_nat n \<noteq> []" by (rule str_nat_nonempty)
  then have "hd (str_nat n) \<in> set (str_nat n)" and "last (str_nat n) \<in> set (str_nat n)"
    by simp_all
  then show "\<not> int_space (hd (str_nat n))" and "\<not> int_space (last (str_nat n))"
    using str_nat_digits [of n] by (auto dest: digit_not_space)
qed

lemma minus_str_nat_strip: "int_strip (45 # str_nat n) = 45 # str_nat n"
proof (rule int_strip_id)
  show "45 # str_nat n \<noteq> []" by simp
  show "\<not> int_space (hd (45 # str_nat n))"
    by (simp add: int_space_def)
  have "last (str_nat n) \<in> set (str_nat n)" using str_nat_nonempty [of n] by simp
  then have "\<not> int_space (last (str_nat n))"
    using str_nat_digits [of n] by (auto dest: digit_not_space)
  then show "\<not> int_space (last (45 # str_nat n))" by (simp add: str_nat_nonempty)
qed

lemma int_of_str_str_int: "int_of_str L (str_int i) = Some i"
proof (cases "i < 0")
  case True
  have a: "\<not> (\<exists>c \<in> set (45 # str_nat (nat (- i))). 128 \<le> c)"
    using str_nat_ascii [of _ "nat (- i)"] by fastforce
  have "int_of_str L (45 # str_nat (nat (- i))) =
          map_option (\<lambda>n. - int n) (parse_digits (str_nat (nat (- i))))"
    unfolding int_of_str_def using a by (simp add: minus_str_nat_strip)
  with True show ?thesis by (simp add: str_int_def parse_digits_str_nat)
next
  case False
  obtain c cs where cs: "str_nat (nat i) = c # cs"
    using str_nat_nonempty [of "nat i"] by (cases "str_nat (nat i)") auto
  have a: "\<not> (\<exists>c \<in> set (str_nat (nat i)). 128 \<le> c)"
    using str_nat_ascii [of _ "nat i"] by fastforce
  have "int_of_str L (str_nat (nat i)) = map_option int (parse_digits (str_nat (nat i)))"
    unfolding int_of_str_def using a str_nat_sign [OF cs]
    by (simp add: str_nat_strip) (simp add: cs)
  with False show ?thesis by (simp add: str_int_def parse_digits_str_nat)
qed

lemma split_on_no_sep: "sep \<notin> set b \<Longrightarrow> split_on sep b = [b]"
  by (induction b) auto

lemma split_on_append: "sep \<notin> set a \<Longrightarrow> split_on sep (a @ sep # b) = a # split_on sep b"
  by (induction a) (auto split: list.splits)

subsection \<open>Callback data\<close>

lemma str_int_no_colon: "58 \<notin> set (str_int i)"
  using str_nat_digits [of "nat i"] str_nat_digits [of "nat (- i)"]
  by (auto simp: str_int_def is_digit_def)

lemma split_callback_data:
  "split_on 58 (S ''track:get:'' @ str_int sid @ S '':'' @ str_int j) =
     [S ''track'', S ''get'', str_int sid, str_int j]"
proof -
  have e: "S ''track:get:'' @ str_int sid @ S '':'' @ str_int j =
          S ''track'' @ 58 # (S ''get'' @ 58 # (str_int sid @ 58 # str_int j))"
    by simp
  have a1: "split_on 58 (S ''track'' @ 58 # (S ''get'' @ 58 # (str_int sid @ 58 # str_int j))) =
              S ''track'' # split_on 58 (S ''get'' @ 58 # (str_int sid @ 58 # str_int j))"
    by (rule split_on_append) simp
  have a2: "split_on 58 (S ''get'' @ 58 # (str_int sid @ 58 # str_int j)) =
               S ''get'' # split_on 58 (str_int sid @ 58 # str_int j)"
    by (rule split_on_append) simp
  have a3: "split_on 58 (str_int sid @ 58 # str_int j) = str_int sid # split_on 58 (str_int j)"
    by (rule split_on_append) (rule str_int_no_colon)
  have a4: "split_on 58 (str_int j) = [str_int j]"
    by (rule split_on_no_sep) (rule str_int_no_colon)
  show ?thesis
    by (simp only: e a1 a2 a3 a4)
qed

lemma py_int_str_int: "py_int L (PStr (str_int i)) = Inr i"
  by (simp add: py_int_def int_of_str_str_int)

lemma list_get_nat: "i < length xs \<Longrightarrow> list_get xs (int i) = Inr (xs ! i)"
  by (simp add: list_get_def)

lemma handler_callback_data:
  assumes "search_history sid = Some tracks" and "i < length tracks"
  shows "track_callback_handler L search_history
           (S ''track:get:'' @ str_int sid @ S '':'' @ str_int (int i)) = Download (tracks ! i)"
proof -
  let ?data = "[S ''track'', S ''get'', str_int sid, str_int (int i)]"
  have g1: "list_get ?data 1 = Inr (S ''get'')" by (simp add: list_get_def)
  have g2: "list_get ?data 2 = Inr (str_int sid)" by (simp add: list_get_def)
  have g3: "list_get ?data 3 = Inr (str_int (int i))" by (simp add: list_get_def)
  show ?thesis
    unfolding track_callback_handler_def split_callback_data Let_def g1 g2 g3
    using assms by (simp add: py_int_str_int list_get_nat)
qed

lemma keyboard_length:
  "length (get_search_results_keyboard tracks sid) = min (length tracks) 10"
  by (simp add: get_search_results_keyboard_def min.commute)

lemma keyboard_nth:
  assumes "i < min (length tracks) 10"
  shows "get_search_results_keyboard tracks sid ! i =
     [\<lparr> button_text = str_int (int i + 1) @ S ''. '' @ performer (tracks ! i) @ S '' - '' @ title (tracks ! i),
        callback_data = S ''track:get:'' @ str_int sid @ S '':'' @ str_int (int i) \<rparr>]"
proof -
  from assms have l: "i < length (take 10 tracks)" by simp
  then have "enumerate 0 (take 10 tracks) ! i = (i, take 10 tracks ! i)"
    by (simp add: nth_enumerate_eq)
  moreover from assms have "take 10 tracks ! i = tracks ! i" by simp
  ultimately show ?thesis using l
    unfolding get_search_results_keyboard_def by (simp del: of_char_Char)
qed


lemma concat_singletons:
  "length (concat (map (\<lambda>(i, t). [g i t]) xs)) = length xs"
  by (induction xs) auto

lemma keyboard_concat_length:
  "length (concat (get_search_results_keyboard tracks sid)) = min (length tracks) 10"
  unfolding get_search_results_keyboard_def
  by (simp only: concat_singletons length_enumerate length_take min.commute)

text \<open>
  C10. The keyboard for a track list and a search identifier has \<open>min (length, 10)\<close>
  rows of one button each, so that many buttons; the button at position \<open>i\<close> carries the
  callback data \<open>track:get:{search_id}:{i}\<close>, and when the track list is stored under
  that identifier, the callback handler given this data starts the download of the track
  at position \<open>i\<close> of the list.
\<close>

theorem keyboard_buttons:
  "length (get_search_results_keyboard tracks sid) = min (length tracks) 10 \<and>
   length (concat (get_search_results_keyboard tracks sid)) = min (length tracks) 10 \<and>
   (\<forall>i < min (length tracks) 10.
      \<exists>b. get_search_results_keyboard tracks sid ! i = [b] \<and>
          callback_data b = S ''track:get:'' @ str_int sid @ S '':'' @ str_int (int i) \<and>
          (search_history sid = Some tracks \<longrightarrow>
             track_callback_handler L search_history (callback_data b) =
               Download (tracks ! i)))"
proof (intro conjI allI impI)
  show "length (get_search_results_keyboard tracks sid) = min (length tracks) 10"
    by (rule keyboard_length)
next
  show "length (concat (get_search_results_keyboard tracks sid)) = min (length tracks) 10"
    by (rule keyboard_concat_length)
next
  fix i assume i: "i < min (length tracks) 10"
  let ?b = "\<lparr> button_text = str_int (int i + 1) @ S ''. '' @ performer (tracks ! i) @ S '' - '' @ title (tracks ! i),
        callback_data = S ''track:get:'' @ str_int sid @ S '':'' @ str_int (int i) \<rparr>"
  have n: "get_search_results_keyboard tracks sid ! i = [?b]" using i by (rule keyboard_nth)
  have c: "callback_data ?b = S ''track:get:'' @ str_int sid @ S '':'' @ str_int (int i)"
    by (simp del: of_char_Char)
  have h: "search_history sid = Some tracks \<longrightarrow>
             track_callback_handler L search_history (callback_data ?b) = Download (tracks ! i)"
  proof
    assume "search_history sid = Some tracks"
    moreover from i have "i < length tracks" by simp
    ultimately show "track_callback_handler L search_history (callback_data ?b) = Download (tracks ! i)"
      unfolding c by (rule handler_callback_data)
  qed
  from n c h show "\<exists>b. get_search_results_keyboard tracks sid ! i = [b] \<and>
          callback_data b = S ''track:get:'' @ str_int sid @ S '':'' @ str_int (int i) \<and>
          (search_history sid = Some tracks \<longrightarrow>
             track_callback_handler L search_history (callback_data b) =
               Download (tracks ! i))"
    by blast
qed

theorem keyboard_buttons_witness:
  "length (get_search_results_keyboard twelve_tracks 7) = 10 \<and>
   length (concat (get_search_results_keyboard [daft_track, justice_track] 7)) = 2 \<and>
   (\<exists>b. get_search_results_keyboard [daft_track, justice_track] 7 ! 1 = [b] \<and>
        callback_data b = S ''track:get:7:1'' \<and>
        track_callback_handler ascii_lib [7 \<mapsto> [daft_track, justice_track]]
          (callback_data b) = Download justice_track)"
proof -
  have s7: "str_int 7 = S ''7''" and s1: "str_int (int 1) = S ''1''"
    by (simp_all add: str_int_def str_nat.simps)
  have l: "min (length twelve_tracks) 10 = 10"
    by (simp add: twelve_tracks_def)
  have a: "length (get_search_results_keyboard twelve_tracks 7) = 10"
    using keyboard_buttons [of twelve_tracks 7, THEN conjunct1] by (simp only: l)
  note t = keyboard_buttons [of "[daft_track, justice_track]" 7 "[7 \<mapsto> [daft_track, justice_track]]"
      ascii_lib]
  have m: "min (length [daft_track, justice_track]) 10 = 2"
    by simp
  have b: "length (concat (get_search_results_keyboard [daft_track, justice_track] 7)) = 2"
    using t [THEN conjunct2, THEN conjunct1] by (simp only: m)
  have i: "1 < min (length [daft_track, justice_track]) 10"
    by simp
  have h: "[7 \<mapsto> [daft_track, justice_track]] (7::int) = Some [daft_track, justice_track]"
    by simp
  have j: "[daft_track, justice_track] ! 1 = justice_track"
    by simp
  have d: "S ''track:get:'' @ S ''7'' @ S '':'' @ S ''1'' = S ''track:get:7:1''"
    by simp
  have "\<exists>b. get_search_results_keyboard [daft_track, justice_track] 7 ! 1 = [b] \<and>
          callback_data b = S ''track:get:'' @ str_int 7 @ S '':'' @ str_int (int 1) \<and>
          ([7 \<mapsto> [daft_track, justice_track]] (7::int) = Some [daft_track, justice_track] \<longrightarrow>
             track_callback_handler ascii_lib [7 \<mapsto> [daft_track, justice_track]]
               (callback_data b) = Download ([daft_track, justice_track] ! 1))"
    by (rule t [THEN conjunct2, THEN conjunct2, rule_format, OF i])
  then obtain b where bb:
    "get_search_results_keyboard [daft_track, justice_track] 7 ! 1 = [b] \<and>
     callback_data b = S ''track:get:'' @ str_int 7 @ S '':'' @ str_int (int 1) \<and>
     ([7 \<mapsto> [daft_track, justice_track]] (7::int) = Some [daft_track, justice_track] \<longrightarrow>
        track_callback_handler ascii_lib [7 \<mapsto> [daft_track, justice_track]]
          (callback_data b) = Download ([daft_track, justice_track] ! 1))" ..
  note b1 = bb [THEN conjunct1]
  have b2: "callback_data b = S ''track:get:7:1''"
    using bb [THEN conjunct2, THEN conjunct1] by (simp only: s7 s1 d)
  have b3: "track_callback_handler ascii_lib
      [7 \<mapsto> [daft_track, justice_track]] (callback_data b) = Download justice_track"
    using bb [THEN conjunct2, THEN conjunct2, THEN mp, OF h] by (simp only: j)
  from b1 b2 b3 have c: "\<exists>b. get_search_results_keyboard [daft_track, justice_track] 7 ! 1 = [b] \<and>
        callback_data b = S ''track:get:7:1'' \<and>
        track_callback_handler ascii_lib [7 \<mapsto> [daft_track, justice_track]]
          (callback_data b) = Download justice_track"
    by (intro exI [of _ b] conjI)
  from a b c show ?thesis by (intro conjI)
qed

end
